theory Spec2Isabelle
  imports Main "HOL-Library.Sublist" "HOL-Library.AList"
begin

section \<open>The webpack compiler service of the NativeScript CLI\<close>

text \<open>
  A shallow embedding of \<^verbatim>\<open>WebpackCompilerService\<close> (the bundler process supervisor and
  its hash-chain reconciler). File names and hashes are \<^typ>\<open>string\<close>s; a character is one
  byte, so the two line terminators of JavaScript outside Latin-1 (U+2028, U+2029) do not
  occur in the modelled file names.

  An exception thrown by the source is a value \<open>Inl e\<close> of the result type; the state is
  passed explicitly and returned updated. What the collaborators decide (whether the
  command line can be built and the child spawned, the process id, whether \<^verbatim>\<open>kill\<close>
  throws, what \<^verbatim>\<open>path.join\<close> returns on the host) is a parameter of the function that
  depends on it.
\<close>

subsection \<open>Errors, promises\<close>

text \<open>
  \<open>exit_code\<close> is the value of \<^verbatim>\<open>typeof arg === "number" ? arg : arg && arg.code\<close>:
  a number, \<^verbatim>\<open>null\<close> or \<^verbatim>\<open>undefined\<close>.
\<close>

datatype exit_code = CodeNumber int | CodeNull | CodeUndefined

datatype error =
    TypeError string
  | StartError string
  | ChildError string
  | ExitCodeError exit_code

text \<open>A promise settles once: \<^verbatim>\<open>resolve\<close> and \<^verbatim>\<open>reject\<close> on a settled promise do nothing.\<close>

datatype 'a promise = Pending | Resolved 'a | Rejected error

definition resolve :: "'a \<Rightarrow> 'a promise \<Rightarrow> 'a promise" where
  "resolve v p = (case p of Pending \<Rightarrow> Resolved v | _ \<Rightarrow> p)"

definition reject :: "error \<Rightarrow> 'a promise \<Rightarrow> 'a promise" where
  "reject e p = (case p of Pending \<Rightarrow> Rejected e | _ \<Rightarrow> p)"

subsection \<open>Strings: \<^verbatim>\<open>endsWith\<close>, \<^verbatim>\<open>indexOf\<close> and the regular expression\<close>

definition endsWith :: "string \<Rightarrow> string \<Rightarrow> bool" where
  "endsWith x s = suffix s x"

text \<open>\<^verbatim>\<open>f.indexOf(s) > -1\<close>: \<open>s\<close> occurs in \<open>f\<close> as a contiguous substring.\<close>

fun indexOfFound :: "string \<Rightarrow> string \<Rightarrow> bool" where
  "indexOfFound [] s = (s = [])"
| "indexOfFound (c # cs) s = (prefix s (c # cs) \<or> indexOfFound cs s)"

definition isLineTerminator :: "char \<Rightarrow> bool" where
  "isLineTerminator c \<longleftrightarrow> c = CHR 0x0A \<or> c = CHR 0x0D"

text \<open>
  The matcher \<^verbatim>\<open>/^(.+)\.(.+)\.hot-update/gm\<close> is modelled as a backtracking matcher
  that returns the list of its successes in the order in which the engine would try
  them; \<^verbatim>\<open>exec\<close> returns the first one.

  \<open>dotPlus s\<close> are the ways a greedy \<^verbatim>\<open>(.+)\<close> can match at the head of \<open>s\<close>, longest
  first: one or more characters, none of them a line terminator. Each is paired with the
  rest of the input.
\<close>

definition dotPlus :: "string \<Rightarrow> (string \<times> string) list" where
  "dotPlus s =
     map (\<lambda>n. (take n s, drop n s))
       (rev [1..<Suc (length (takeWhile (\<lambda>c. \<not> isLineTerminator c) s))])"

text \<open>A literal at the head of the input: the rest of the input when it is there.\<close>

definition literal :: "string \<Rightarrow> string \<Rightarrow> string list" where
  "literal l s = (if prefix l s then [drop (length l) s] else [])"

text \<open>\<^verbatim>\<open>(.+)\.(.+)\.hot-update\<close> at the head of \<open>s\<close>: the pairs (group 1, group 2).\<close>

definition matchHere :: "string \<Rightarrow> (string \<times> string) list" where
  "matchHere s =
     concat (map (\<lambda>(g1, r1).
       concat (map (\<lambda>r1'.
         concat (map (\<lambda>(g2, r2).
           map (\<lambda>_. (g1, g2)) (literal ''.hot-update'' r2))
         (dotPlus r1')))
       (literal ''.'' r1)))
     (dotPlus s))"

text \<open>
  With the flag \<^verbatim>\<open>m\<close>, \<^verbatim>\<open>^\<close> holds at index 0 and after every line terminator.
  \<^verbatim>\<open>exec\<close> on a fresh matcher starts at index 0 and moves right until a match is found.
\<close>

definition lineStarts :: "string \<Rightarrow> nat list" where
  "lineStarts s =
     filter (\<lambda>i. i = 0 \<or> isLineTerminator (s ! (i - 1))) [0..<Suc (length s)]"

definition matcher_exec :: "string \<Rightarrow> (string \<times> string) option" where
  "matcher_exec s =
     (case concat (map (\<lambda>i. matchHere (drop i s)) (lineStarts s)) of
        [] \<Rightarrow> None
      | m # _ \<Rightarrow> Some m)"

subsection \<open>The hash-chain reconciler\<close>

text \<open>
  \<^verbatim>\<open>getCurrentHotUpdateHash\<close>: the first emitted file that ends with
  \<^verbatim>\<open>.hot-update.js\<close> is matched; \<^verbatim>\<open>matches[2]\<close> on a failed match (\<^verbatim>\<open>null\<close>) throws a
  TypeError. \<^verbatim>\<open>hotHash || ""\<close> turns an undefined or empty hash into the empty string.
\<close>

definition getCurrentHotUpdateHash :: "string list \<Rightarrow> error + string" where
  "getCurrentHotUpdateHash emittedFiles =
     (case filter (\<lambda>x. endsWith x ''.hot-update.js'') emittedFiles of
        [] \<Rightarrow> Inr ''''
      | hotUpdateName # _ \<Rightarrow>
          (case matcher_exec hotUpdateName of
             None \<Rightarrow> Inl (TypeError ''Cannot read property 2 of null'')
           | Some (g1, hotHash) \<Rightarrow> Inr (if hotHash = '''' then '''' else hotHash)))"

text \<open>\<^verbatim>\<open>_.difference(array, values)\<close>: the elements of \<open>array\<close>, in order, that are not in \<open>values\<close>.\<close>

definition difference :: "'a list \<Rightarrow> 'a list \<Rightarrow> 'a list" where
  "difference array vals = filter (\<lambda>x. x \<notin> set vals) array"

text \<open>
  The result \<^verbatim>\<open>{ emittedFiles, fallbackFiles, hash }\<close>. Its last two fields are also the
  fields of \<^verbatim>\<open>hmrData\<close> in the event raised later, so they form the parent record.
\<close>

record hmr_data =
  fallbackFiles :: "string list"
  hash :: string

record updated_files = hmr_data +
  emittedFiles :: "string list"

text \<open>
  The state of the service: its two dictionaries (\<open>webpackProcesses\<close> in insertion order,
  as \<^verbatim>\<open>Object.keys\<close> lists it; a child process is identified with its process id), and
  the effects on its collaborators: the child processes spawned so far (process id,
  platform, watch mode), the calls made to the cleanup service, and the signals sent to
  child processes.
\<close>

datatype cleanup_call = AddKillProcess nat | RemoveKillProcess nat

record service =
  webpackProcesses :: "(string \<times> nat) list"
  expectedHashes :: "string \<rightharpoonup> string"
  spawned :: "(nat \<times> string \<times> bool) list"
  cleanupCalls :: "cleanup_call list"
  signals :: "(nat \<times> string) list"

definition getUpdatedEmittedFiles ::
    "string list \<Rightarrow> string list \<Rightarrow> string \<Rightarrow> string \<Rightarrow> service \<Rightarrow> error + (updated_files \<times> service)" where
  "getUpdatedEmittedFiles allEmittedFiles chunkFiles nextHash platform st =
     (case getCurrentHotUpdateHash allEmittedFiles of
        Inl e \<Rightarrow> Inl e
      | Inr currentHash \<Rightarrow>
          (let isHashValid =
                 (if nextHash \<noteq> '''' then expectedHashes st platform = Some currentHash else True);
               st' = st\<lparr>expectedHashes := (expectedHashes st)(platform \<mapsto> nextHash)\<rparr>;
               emittedHotUpdatesAndAssets =
                 (if isHashValid then difference allEmittedFiles chunkFiles else allEmittedFiles)
           in Inr (\<lparr>fallbackFiles = chunkFiles,
                    hash = currentHash,
                    emittedFiles = emittedHotUpdatesAndAssets\<rparr>, st')))"

subsection \<open>The supervisor: starting a child process\<close>

record platform_data =
  platformNameLowerCase :: string
  appDestinationDirectoryPath :: string

record prepare_data =
  hmr :: bool
  watch :: bool

text \<open>
  Where \<^verbatim>\<open>startWebpackProcess\<close> can throw: while the arguments are built or the process
  is spawned, before anything is changed (\<open>BeforeSpawn\<close>); at
  \<^verbatim>\<open>childProcess.pid.toString()\<close>, after the child has been spawned and registered
  (\<open>PidUnavailable\<close>); or in \<^verbatim>\<open>addKillProcess\<close>, after the call has been made as well
  (\<open>AddKillProcessFails\<close>).
\<close>

datatype start_failure =
    BeforeSpawn error
  | PidUnavailable error
  | AddKillProcessFails error

text \<open>
  \<^verbatim>\<open>startWebpackProcess\<close>. The command line it builds does not matter to the registry:
  \<open>failure\<close> says where the function throws (\<open>None\<close> when nothing is thrown), and \<open>pid\<close>
  is the process id the operating system gives to the child. The child is spawned and
  registered only after the first \<^verbatim>\<open>await\<close> of this function (on
  \<^verbatim>\<open>buildEnvCommandLineParams\<close>). The result is the child or the error thrown, and the
  state reached: a failure after the registration leaves the child registered.
\<close>

definition startWebpackProcess ::
    "start_failure option \<Rightarrow> nat \<Rightarrow> platform_data \<Rightarrow> prepare_data \<Rightarrow> service
      \<Rightarrow> (error + nat) \<times> service" where
  "startWebpackProcess failure pid platformData prepareData st =
     (let registered =
            st\<lparr>spawned := spawned st @ [(pid, platformNameLowerCase platformData, watch prepareData)],
               webpackProcesses :=
                 AList.update (platformNameLowerCase platformData) pid (webpackProcesses st)\<rparr>;
          tracked = registered\<lparr>cleanupCalls := cleanupCalls st @ [AddKillProcess pid]\<rparr>
      in (case failure of
            Some (BeforeSpawn e) \<Rightarrow> (Inl e, st)
          | Some (PidUnavailable e) \<Rightarrow> (Inl e, registered)
          | Some (AddKillProcessFails e) \<Rightarrow> (Inl e, tracked)
          | None \<Rightarrow> (Inr pid, tracked)))"

subsection \<open>The supervisor: watch mode\<close>

text \<open>
  A message of the child: a string, or an object with \<^verbatim>\<open>emittedFiles\<close>, \<^verbatim>\<open>chunkFiles\<close>
  and \<^verbatim>\<open>hash\<close>.
\<close>

datatype webpack_message =
    TextMessage string
  | EmitMessage "string list" "string list" string

text \<open>The data of the event \<^verbatim>\<open>WEBPACK_COMPILATION_COMPLETE\<close>.\<close>

record compilation_data =
  files :: "string list"
  hasOnlyHotUpdateFiles :: bool
  hmrData :: hmr_data
  platform :: string

text \<open>
  What one call of \<^verbatim>\<open>compileWithWatch\<close> owns: the promise it returned (resolved with the
  child process, or with \<^verbatim>\<open>undefined\<close> = \<open>None\<close>), the variable
  \<^verbatim>\<open>isFirstWebpackWatchCompilation\<close> of its closure, and the child its handlers listen to.
\<close>

record watch_session =
  promise :: "nat option promise"
  isFirstWebpackWatchCompilation :: bool
  childProcess :: "nat option"

text \<open>
  The synchronous head of \<^verbatim>\<open>compileWithWatch\<close>, up to its first \<^verbatim>\<open>await\<close>: the guard
  on the registry. \<open>Returned\<close>: the promise was resolved at once; \<open>Awaiting\<close>: the call
  is suspended at \<^verbatim>\<open>await this.startWebpackProcess(...)\<close>.
\<close>

datatype 'a suspended = Returned 'a | Awaiting

definition compileWithWatch_enter :: "platform_data \<Rightarrow> service \<Rightarrow> watch_session suspended" where
  "compileWithWatch_enter platformData st =
     (if map_of (webpackProcesses st) (platformNameLowerCase platformData) \<noteq> None
      then Returned \<lparr>promise = Resolved None, isFirstWebpackWatchCompilation = True,
                     childProcess = None\<rparr>
      else Awaiting)"

text \<open>
  The rest of \<^verbatim>\<open>compileWithWatch\<close>, run when the event loop resumes the call: the child
  is started with \<^verbatim>\<open>prepareData.watch = true\<close> and the handlers are attached. When the
  start throws, the promise is rejected and no handler is attached.
\<close>

definition compileWithWatch_resume ::
    "start_failure option \<Rightarrow> nat \<Rightarrow> platform_data \<Rightarrow> prepare_data \<Rightarrow> service
      \<Rightarrow> watch_session \<times> service" where
  "compileWithWatch_resume failure pid platformData prepareData st =
     (case startWebpackProcess failure pid platformData (prepareData\<lparr>watch := True\<rparr>) st of
        (Inl err, st') \<Rightarrow>
          (\<lparr>promise = Rejected err, isFirstWebpackWatchCompilation = True,
            childProcess = None\<rparr>, st')
      | (Inr child, st') \<Rightarrow>
          (\<lparr>promise = Pending, isFirstWebpackWatchCompilation = True,
            childProcess = Some child\<rparr>, st'))"

text \<open>One call of \<^verbatim>\<open>compileWithWatch\<close> that nothing else interleaves with.\<close>

definition compileWithWatch ::
    "start_failure option \<Rightarrow> nat \<Rightarrow> platform_data \<Rightarrow> prepare_data \<Rightarrow> service
      \<Rightarrow> watch_session \<times> service" where
  "compileWithWatch failure pid platformData prepareData st =
     (case compileWithWatch_enter platformData st of
        Returned session \<Rightarrow> (session, st)
      | Awaiting \<Rightarrow> compileWithWatch_resume failure pid platformData prepareData st)"

text \<open>
  Two calls of \<^verbatim>\<open>compileWithWatch\<close> made one after the other before the event loop runs
  again (as in \<^verbatim>\<open>Promise.all([s.compileWithWatch(..), s.compileWithWatch(..)])\<close>): each
  call runs to its first \<^verbatim>\<open>await\<close>, then the event loop resumes them in the order in
  which they were suspended.
\<close>

definition compileWithWatch_concurrently ::
    "start_failure option \<Rightarrow> nat \<Rightarrow> start_failure option \<Rightarrow> nat \<Rightarrow> platform_data
      \<Rightarrow> prepare_data \<Rightarrow> service \<Rightarrow> watch_session \<times> watch_session \<times> service" where
  "compileWithWatch_concurrently failure1 pid1 failure2 pid2 platformData prepareData st =
     (let call1 = compileWithWatch_enter platformData st;
          call2 = compileWithWatch_enter platformData st;
          (session1, st1) =
            (case call1 of
               Returned session \<Rightarrow> (session, st)
             | Awaiting \<Rightarrow> compileWithWatch_resume failure1 pid1 platformData prepareData st);
          (session2, st2) =
            (case call2 of
               Returned session \<Rightarrow> (session, st1)
             | Awaiting \<Rightarrow> compileWithWatch_resume failure2 pid2 platformData prepareData st1)
      in (session1, session2, st2))"

text \<open>
  The handler of \<^verbatim>\<open>"message"\<close>. \<open>path_join\<close> is \<^verbatim>\<open>path.join\<close> of the host platform.
  The result is the list of events raised, the closure and the state; \<open>Inl\<close> when the
  handler throws (it has changed nothing by then).
\<close>

definition onMessage ::
    "(string \<Rightarrow> string \<Rightarrow> string \<Rightarrow> string) \<Rightarrow> platform_data \<Rightarrow> prepare_data \<Rightarrow> nat
      \<Rightarrow> webpack_message \<Rightarrow> watch_session \<times> service
      \<Rightarrow> error + (compilation_data list \<times> watch_session \<times> service)" where
  "onMessage path_join platformData prepareData child message = (\<lambda>(session, st).
     (case message of
        TextMessage s \<Rightarrow>
          Inr ([],
               (if s = ''Webpack compilation complete.''
                then session\<lparr>promise := resolve (Some child) (promise session)\<rparr>
                else session),
               st)
      | EmitMessage message_emittedFiles message_chunkFiles message_hash \<Rightarrow>
          if isFirstWebpackWatchCompilation session then
            Inr ([],
                 session\<lparr>isFirstWebpackWatchCompilation := False\<rparr>,
                 st\<lparr>expectedHashes :=
                      (expectedHashes st)(platformNameLowerCase platformData \<mapsto> message_hash)\<rparr>)
          else
            (case (if hmr prepareData
                   then getUpdatedEmittedFiles message_emittedFiles message_chunkFiles
                          message_hash (platformNameLowerCase platformData) st
                   else Inr (\<lparr>fallbackFiles = [], hash = '''',
                              emittedFiles = message_emittedFiles\<rparr>, st)) of
               Inl e \<Rightarrow> Inl e
             | Inr (result, st') \<Rightarrow>
                 (let files' =
                        map (\<lambda>file. path_join (appDestinationDirectoryPath platformData) ''app'' file)
                          (emittedFiles result);
                      fallbackFiles' =
                        map (\<lambda>file. path_join (appDestinationDirectoryPath platformData) ''app'' file)
                          (fallbackFiles result);
                      data = \<lparr>files = files',
                              hasOnlyHotUpdateFiles = list_all (\<lambda>f. indexOfFound f ''hot-update'') files',
                              hmrData = \<lparr>fallbackFiles = fallbackFiles', hash = hash result\<rparr>,
                              platform = platformNameLowerCase platformData\<rparr>
                  in Inr (if length (files data) \<noteq> 0 then [data] else [], session, st')))))"

text \<open>The value \<^verbatim>\<open>typeof arg === "number" ? arg : arg && arg.code\<close> of a \<^verbatim>\<open>"close"\<close> argument.\<close>

datatype close_arg = ArgNumber int | ArgNull | ArgUndefined | ArgObject exit_code

fun exitCodeOf :: "close_arg \<Rightarrow> exit_code" where
  "exitCodeOf (ArgNumber n) = CodeNumber n"
| "exitCodeOf ArgNull = CodeNull"
| "exitCodeOf ArgUndefined = CodeUndefined"
| "exitCodeOf (ArgObject code) = code"

text \<open>The handlers of \<^verbatim>\<open>"error"\<close> and \<^verbatim>\<open>"close"\<close> in watch mode.\<close>

definition onErrorWithWatch ::
    "platform_data \<Rightarrow> string \<Rightarrow> watch_session \<times> service \<Rightarrow> watch_session \<times> service" where
  "onErrorWithWatch platformData err = (\<lambda>(session, st).
     (session\<lparr>promise := reject (ChildError err) (promise session)\<rparr>,
      st\<lparr>webpackProcesses :=
           AList.delete (platformNameLowerCase platformData) (webpackProcesses st)\<rparr>))"

definition onCloseWithWatch ::
    "platform_data \<Rightarrow> nat \<Rightarrow> close_arg \<Rightarrow> watch_session \<times> service \<Rightarrow> watch_session \<times> service" where
  "onCloseWithWatch platformData child arg = (\<lambda>(session, st).
     (let st1 = st\<lparr>cleanupCalls := cleanupCalls st @ [RemoveKillProcess child]\<rparr>;
          exitCode = exitCodeOf arg;
          st2 = st1\<lparr>webpackProcesses :=
                      AList.delete (platformNameLowerCase platformData) (webpackProcesses st1)\<rparr>
      in (session\<lparr>promise := reject (ExitCodeError exitCode) (promise session)\<rparr>, st2)))"

subsection \<open>The supervisor: one-shot mode\<close>

record once_session =
  oncePromise :: "unit promise"
  onceChildProcess :: "nat option"

definition compileWithoutWatch ::
    "start_failure option \<Rightarrow> nat \<Rightarrow> platform_data \<Rightarrow> prepare_data \<Rightarrow> service
      \<Rightarrow> once_session \<times> service" where
  "compileWithoutWatch failure pid platformData prepareData st =
     (if map_of (webpackProcesses st) (platformNameLowerCase platformData) \<noteq> None
      then (\<lparr>oncePromise = Resolved (), onceChildProcess = None\<rparr>, st)
      else
        (case startWebpackProcess failure pid platformData prepareData st of
           (Inl err, st') \<Rightarrow> (\<lparr>oncePromise = Rejected err, onceChildProcess = None\<rparr>, st')
         | (Inr child, st') \<Rightarrow> (\<lparr>oncePromise = Pending, onceChildProcess = Some child\<rparr>, st')))"

definition onErrorWithoutWatch ::
    "platform_data \<Rightarrow> string \<Rightarrow> once_session \<times> service \<Rightarrow> once_session \<times> service" where
  "onErrorWithoutWatch platformData err = (\<lambda>(session, st).
     (session\<lparr>oncePromise := reject (ChildError err) (oncePromise session)\<rparr>,
      st\<lparr>webpackProcesses :=
           AList.delete (platformNameLowerCase platformData) (webpackProcesses st)\<rparr>))"


subsection \<open>The supervisor: stopping\<close>

text \<open>
  \<^verbatim>\<open>stopWebpackForPlatform\<close> reads \<^verbatim>\<open>webpackProcess.pid\<close> before it tests
  \<^verbatim>\<open>webpackProcess\<close>: on an unregistered platform the read throws a TypeError.
  \<open>kill\<close> says whether \<^verbatim>\<open>webpackProcess.kill("SIGINT")\<close> throws for a child. The result is
  the error that rejects the returned promise, if any, and the state reached.
\<close>

definition stopWebpackForPlatform ::
    "(nat \<Rightarrow> error option) \<Rightarrow> string \<Rightarrow> service \<Rightarrow> error option \<times> service" where
  "stopWebpackForPlatform kill platform' st =
     (case map_of (webpackProcesses st) platform' of
        None \<Rightarrow> (Some (TypeError ''Cannot read property pid of undefined''), st)
      | Some webpackProcess \<Rightarrow>
          (let st1 = st\<lparr>cleanupCalls := cleanupCalls st @ [RemoveKillProcess webpackProcess]\<rparr>
           in (case kill webpackProcess of
                 Some e \<Rightarrow> (Some e, st1)
               | None \<Rightarrow>
                   (None,
                    st1\<lparr>signals := signals st1 @ [(webpackProcess, ''SIGINT'')],
                        webpackProcesses := AList.delete platform' (webpackProcesses st1)\<rparr>))))"

text \<open>The loop of \<^verbatim>\<open>stopWebpackCompiler\<close> over \<^verbatim>\<open>Object.keys(this.webpackProcesses)\<close>.\<close>

fun stopWebpackedPlatforms ::
    "(nat \<Rightarrow> error option) \<Rightarrow> string list \<Rightarrow> service \<Rightarrow> error option \<times> service" where
  "stopWebpackedPlatforms kill [] st = (None, st)"
| "stopWebpackedPlatforms kill (p # ps) st =
     (case stopWebpackForPlatform kill p st of
        (Some e, st') \<Rightarrow> (Some e, st')
      | (None, st') \<Rightarrow> stopWebpackedPlatforms kill ps st')"

text \<open>
  \<^verbatim>\<open>stopWebpackCompiler(platform)\<close>: \<open>None\<close> is a call without the argument; the empty
  string is falsy as well.
\<close>

definition stopWebpackCompiler ::
    "(nat \<Rightarrow> error option) \<Rightarrow> string option \<Rightarrow> service \<Rightarrow> error option \<times> service" where
  "stopWebpackCompiler kill platform' st =
     (case platform' of
        Some p \<Rightarrow>
          (if p \<noteq> '''' then stopWebpackForPlatform kill p st
           else stopWebpackedPlatforms kill (map fst (webpackProcesses st)) st)
      | None \<Rightarrow> stopWebpackedPlatforms kill (map fst (webpackProcesses st)) st)"

subsection \<open>The prepare orchestrator\<close>

text \<open>
  Modelled from the spec: the prepare controller (\<^verbatim>\<open>lib/controllers/prepare-controller.ts\<close>)
  is not among the sources, only its test is. The payload of a readiness event is the
  fragment of a compilation-complete event together with \<^verbatim>\<open>hasNativeChanges\<close>
  (section 3 of the spec, \<^verbatim>\<open>PrepareReadyPayload\<close>; every payload of section 4.4 is built
  from a fragment, so \<^verbatim>\<open>hmrData\<close> is the fragment's).
\<close>

record prepare_ready_payload = compilation_data +
  hasNativeChanges :: bool

text \<open>
  Modelled from the spec: the state of the orchestrator for one platform, which the absent
  prepare controller owns: the latch \<^verbatim>\<open>hasPendingNativeChange\<close> of section 3, and the
  readiness events raised so far.
\<close>

record orchestrator =
  hasPendingNativeChange :: bool
  readinessEvents :: "prepare_ready_payload list"

text \<open>
  Modelled from the spec: the state in which the absent prepare controller creates the
  watch state of a platform on the first \<^verbatim>\<open>prepare\<close> (section 3): nothing latched, nothing
  raised.
\<close>

definition initialOrchestrator :: orchestrator where
  "initialOrchestrator = \<lparr>hasPendingNativeChange = False, readinessEvents = []\<rparr>"

text \<open>
  Modelled from the spec: the native change watcher of section 4.3, part of the absent
  prepare controller. An event whose path does not satisfy the ignore predicate sets the
  latch; the watcher never clears it.
\<close>

definition nativeFileEvent :: "(string \<Rightarrow> bool) \<Rightarrow> string \<Rightarrow> orchestrator \<Rightarrow> orchestrator" where
  "nativeFileEvent ignored path orch =
     (if ignored path then orch else orch\<lparr>hasPendingNativeChange := True\<rparr>)"

text \<open>
  Modelled from the spec: step 2 of \<^verbatim>\<open>prepare\<close> in section 4.4 (absent prepare controller).
  The result of the native-prepare step seeds the latch by a logical OR with the value
  already latched.
\<close>

definition nativePrepareReturned :: "bool \<Rightarrow> orchestrator \<Rightarrow> orchestrator" where
  "nativePrepareReturned changed orch =
     orch\<lparr>hasPendingNativeChange := hasPendingNativeChange orch \<or> changed\<rparr>"

text \<open>
  Modelled from the spec: step 3 of \<^verbatim>\<open>prepare\<close> in section 4.4, watch mode (absent prepare
  controller). On a compilation-complete event the fragment is merged with the current
  value of the latch, the latch is cleared, and the readiness event is raised.
\<close>

definition compilationComplete :: "compilation_data \<Rightarrow> orchestrator \<Rightarrow> orchestrator" where
  "compilationComplete fragment orch =
     orch\<lparr>readinessEvents := readinessEvents orch @
            [\<lparr>files = files fragment,
              hasOnlyHotUpdateFiles = hasOnlyHotUpdateFiles fragment,
              hmrData = hmrData fragment,
              platform = platform fragment,
              hasNativeChanges = hasPendingNativeChange orch\<rparr>],
          hasPendingNativeChange := False\<rparr>"

text \<open>
  Modelled from the spec: what the orchestrator of section 4.4 (absent prepare controller)
  reacts to in watch mode, in the order of arrival.
\<close>

datatype orchestrator_event =
    NativePrepareReturned bool
  | NativeFileEvent string
  | CompilationComplete compilation_data

text \<open>
  Modelled from the spec: the events of the absent prepare controller that raise a
  readiness event (section 4.4, step 3).
\<close>

fun isCompilationComplete :: "orchestrator_event \<Rightarrow> bool" where
  "isCompilationComplete (CompilationComplete fragment) = True"
| "isCompilationComplete _ = False"

text \<open>
  Modelled from the spec: the events of the absent prepare controller that report a native
  change: a native-prepare step that returns true (section 4.4, step 2) and a native file
  event that the ignore predicate does not filter (section 4.3).
\<close>

fun isNativeChange :: "(string \<Rightarrow> bool) \<Rightarrow> orchestrator_event \<Rightarrow> bool" where
  "isNativeChange ignored (NativePrepareReturned changed) = changed"
| "isNativeChange ignored (NativeFileEvent path) = (\<not> ignored path)"
| "isNativeChange ignored (CompilationComplete fragment) = False"

text \<open>
  Modelled from the spec: the absent prepare controller handles its events one at a time,
  in the order in which they arrive (section 5, ordering guarantees).
\<close>

fun orchestrate :: "(string \<Rightarrow> bool) \<Rightarrow> orchestrator_event list \<Rightarrow> orchestrator \<Rightarrow> orchestrator" where
  "orchestrate ignored [] orch = orch"
| "orchestrate ignored (NativePrepareReturned changed # evs) orch =
     orchestrate ignored evs (nativePrepareReturned changed orch)"
| "orchestrate ignored (NativeFileEvent path # evs) orch =
     orchestrate ignored evs (nativeFileEvent ignored path orch)"
| "orchestrate ignored (CompilationComplete fragment # evs) orch =
     orchestrate ignored evs (compilationComplete fragment orch)"

subsection \<open>Supervisor and orchestrator together\<close>

text \<open>
  Modelled from the spec: how the absent prepare controller is wired to the supervisor
  (section 4.4, step 3). One platform in watch mode: the messages of the child go through
  the handler of the supervisor (the source's \<^verbatim>\<open>"message"\<close> handler above), and every
  event it raises goes to the orchestrator at once. The run stops with \<open>Inl\<close> when the
  handler throws.
\<close>

datatype watch_event =
    NativePrepareDone bool
  | NativeFileChanged string
  | ChildMessage webpack_message

fun watchRun ::
    "(string \<Rightarrow> string \<Rightarrow> string \<Rightarrow> string) \<Rightarrow> (string \<Rightarrow> bool) \<Rightarrow> platform_data \<Rightarrow> prepare_data \<Rightarrow> nat
      \<Rightarrow> watch_event list \<Rightarrow> watch_session \<times> service \<times> orchestrator
      \<Rightarrow> error + (watch_session \<times> service \<times> orchestrator)" where
  "watchRun path_join ignored platformData prepareData child [] sys = Inr sys"
| "watchRun path_join ignored platformData prepareData child (NativePrepareDone changed # evs)
       (session, st, orch) =
     watchRun path_join ignored platformData prepareData child evs
       (session, st, nativePrepareReturned changed orch)"
| "watchRun path_join ignored platformData prepareData child (NativeFileChanged path # evs)
       (session, st, orch) =
     watchRun path_join ignored platformData prepareData child evs
       (session, st, nativeFileEvent ignored path orch)"
| "watchRun path_join ignored platformData prepareData child (ChildMessage message # evs)
       (session, st, orch) =
     (case onMessage path_join platformData prepareData child message (session, st) of
        Inl e \<Rightarrow> Inl e
      | Inr (raised, session', st') \<Rightarrow>
          watchRun path_join ignored platformData prepareData child evs
            (session', st', orchestrate ignored (map CompilationComplete raised) orch))"

subsection \<open>The pattern of the specification\<close>

text \<open>
  The pattern \<^verbatim>\<open><name>.<hash>.hot-update.<ext>\<close> in the words of the specification:
  \<open>specHotUpdatePattern f h\<close> holds when the file name \<open>f\<close> has this shape with the hash
  segment \<open>h\<close>, for some non-empty name and extension.
\<close>

definition specHotUpdatePattern :: "string \<Rightarrow> string \<Rightarrow> bool" where
  "specHotUpdatePattern f h \<longleftrightarrow>
     h \<noteq> [] \<and> (\<exists>name ext. name \<noteq> [] \<and> ext \<noteq> [] \<and> f = name @ ''.'' @ h @ ''.hot-update.'' @ ext)"

subsection \<open>The candidate files of the specification\<close>

text \<open>
  The candidate file paths in the words of the specification: each relative emitted file
  and each relative fallback file of a reconciliation result, joined with the output
  directory of the platform. (The source tests the joined emitted files only.)
\<close>

definition specCandidateFiles ::
    "(string \<Rightarrow> string \<Rightarrow> string \<Rightarrow> string) \<Rightarrow> platform_data \<Rightarrow> updated_files \<Rightarrow> string list" where
  "specCandidateFiles path_join platformData result =
     map (path_join (appDestinationDirectoryPath platformData) ''app'') (emittedFiles result) @
     map (path_join (appDestinationDirectoryPath platformData) ''app'') (fallbackFiles result)"

subsection \<open>A sequence of messages\<close>

text \<open>The messages of the child are handled one at a time, in the order of arrival.\<close>

fun onMessages ::
    "(string \<Rightarrow> string \<Rightarrow> string \<Rightarrow> string) \<Rightarrow> platform_data \<Rightarrow> prepare_data \<Rightarrow> nat
      \<Rightarrow> webpack_message list \<Rightarrow> watch_session \<times> service
      \<Rightarrow> error + (compilation_data list \<times> watch_session \<times> service)" where
  "onMessages path_join platformData prepareData child [] sys = Inr ([], sys)"
| "onMessages path_join platformData prepareData child (message # messages) sys =
     (case onMessage path_join platformData prepareData child message sys of
        Inl e \<Rightarrow> Inl e
      | Inr (raised, sys') \<Rightarrow>
          (case onMessages path_join platformData prepareData child messages sys' of
             Inl e \<Rightarrow> Inl e
           | Inr (raised', sys'') \<Rightarrow> Inr (raised @ raised', sys'')))"

fun isTextMessage :: "webpack_message \<Rightarrow> bool" where
  "isTextMessage (TextMessage s) = True"
| "isTextMessage (EmitMessage message_emittedFiles message_chunkFiles message_hash) = False"

section \<open>Properties\<close>

subsection \<open>Helper facts\<close>

lemma indexOfFound_sublist: "indexOfFound f s \<longleftrightarrow> sublist s f"
  by (induction f) (simp_all add: sublist_Cons_right)

lemma onMessages_text:
  "\<forall>m\<in>set pre. isTextMessage m \<Longrightarrow>
   \<exists>session'. onMessages path_join platformData prepareData child pre (session, st) = Inr ([], session', st)
     \<and> isFirstWebpackWatchCompilation session' = isFirstWebpackWatchCompilation session"
proof (induction pre arbitrary: session)
  case Nil
  then show ?case by simp
next
  case (Cons m pre)
  then obtain s where m: "m = TextMessage s" by (cases m) auto
  obtain session1 where s1: "onMessage path_join platformData prepareData child m (session, st) = Inr ([], session1, st)"
    and f1: "isFirstWebpackWatchCompilation session1 = isFirstWebpackWatchCompilation session"
    by (simp add: m onMessage_def)
  from Cons.IH [of session1] Cons.prems obtain session' where
    "onMessages path_join platformData prepareData child pre (session1, st) = Inr ([], session', st)"
    "isFirstWebpackWatchCompilation session' = isFirstWebpackWatchCompilation session1"
    by auto
  with s1 f1 show ?case by simp
qed

lemma onMessages_append:
  "onMessages path_join platformData prepareData child (xs @ ys) sys =
     (case onMessages path_join platformData prepareData child xs sys of
        Inl e \<Rightarrow> Inl e
      | Inr (raised, sys') \<Rightarrow>
          (case onMessages path_join platformData prepareData child ys sys' of
             Inl e \<Rightarrow> Inl e
           | Inr (raised', sys'') \<Rightarrow> Inr (raised @ raised', sys'')))"
  by (induction xs arbitrary: sys) (auto split: sum.splits prod.splits)

lemma onMessage_first:
  "isFirstWebpackWatchCompilation session \<Longrightarrow>
   onMessage path_join platformData prepareData child
       (EmitMessage message_emittedFiles message_chunkFiles message_hash) (session, st) =
     Inr ([], session\<lparr>isFirstWebpackWatchCompilation := False\<rparr>,
          st\<lparr>expectedHashes :=
               (expectedHashes st)(platformNameLowerCase platformData \<mapsto> message_hash)\<rparr>)"
  by (simp add: onMessage_def)

subsection \<open>The reconciler\<close>

text \<open>
  Whenever a current hash is extracted from \<open>allEmittedFiles\<close>, the reconciler returns:
  the chain is valid iff \<open>nextHash\<close> is empty or the expected hash stored for the platform
  equals the current hash; when valid, the emitted files are \<open>allEmittedFiles\<close> without
  the elements of \<open>chunkFiles\<close>; when invalid, they are \<open>allEmittedFiles\<close> unchanged; the
  fallback files are \<open>chunkFiles\<close> in both cases. (The returned hash is the current hash,
  and \<open>nextHash\<close> becomes the expected hash of the platform.)
\<close>

lemma getUpdatedEmittedFiles_returns:
  assumes "getCurrentHotUpdateHash allEmittedFiles = Inr currentHash"
  shows "getUpdatedEmittedFiles allEmittedFiles chunkFiles nextHash platform' st =
           Inr (\<lparr>fallbackFiles = chunkFiles, hash = currentHash,
                 emittedFiles =
                   (if nextHash = '''' \<or> expectedHashes st platform' = Some currentHash
                    then filter (\<lambda>f. f \<notin> set chunkFiles) allEmittedFiles
                    else allEmittedFiles)\<rparr>,
                st\<lparr>expectedHashes := (expectedHashes st)(platform' \<mapsto> nextHash)\<rparr>)"
  using assms by (simp add: getUpdatedEmittedFiles_def difference_def)

lemma getUpdatedEmittedFiles_returns_example:
  "getCurrentHotUpdateHash [''bundle.js'', ''bundle.abc.hot-update.js''] = Inr ''abc''
   \<and> map_sum id (emittedFiles \<circ> fst)
        (getUpdatedEmittedFiles [''bundle.js'', ''bundle.abc.hot-update.js''] [''bundle.js''] ''def'' ''ios''
          \<lparr>webpackProcesses = [], expectedHashes = [''ios'' \<mapsto> ''abc''], spawned = [],
           cleanupCalls = [], signals = []\<rparr>) = Inr [''bundle.abc.hot-update.js'']
   \<and> map_sum id (emittedFiles \<circ> fst)
        (getUpdatedEmittedFiles [''bundle.js'', ''bundle.abc.hot-update.js''] [''bundle.js''] ''def'' ''ios''
          \<lparr>webpackProcesses = [], expectedHashes = [''ios'' \<mapsto> ''xyz''], spawned = [],
           cleanupCalls = [], signals = []\<rparr>) = Inr [''bundle.js'', ''bundle.abc.hot-update.js'']"
proof -
  have h: "getCurrentHotUpdateHash [''bundle.js'', ''bundle.abc.hot-update.js''] = Inr ''abc''"
    by code_simp
  show ?thesis
    using h getUpdatedEmittedFiles_returns [OF h, of "[''bundle.js'']" "''def''" "''ios''"]
    by simp
qed

text \<open>
  Claim C1 (for every call: the chain is valid iff \<open>nextHash\<close> is empty or the expected
  hash equals the current hash, and the emitted and fallback files are returned
  accordingly) does not hold of the code for every call. On the emitted files
  \<^verbatim>\<open>["bundle.hot-update.js"]\<close>, no chunk files and an empty \<open>nextHash\<close> the chain is valid
  by the claim, and the emitted files \<^verbatim>\<open>["bundle.hot-update.js"]\<close> and no fallback files
  should be returned. The file name ends with \<^verbatim>\<open>.hot-update.js\<close> and has no hash
  segment, so the match in \<^verbatim>\<open>getCurrentHotUpdateHash\<close> fails, \<^verbatim>\<open>matches[2]\<close> throws a
  TypeError, and the reconciler returns nothing.
\<close>

theorem getUpdatedEmittedFiles_throws:
  "getUpdatedEmittedFiles [''bundle.hot-update.js''] [] '''' ''ios''
     \<lparr>webpackProcesses = [], expectedHashes = Map.empty, spawned = [], cleanupCalls = [],
      signals = []\<rparr> =
   Inl (TypeError ''Cannot read property 2 of null'')"
proof -
  have "getCurrentHotUpdateHash [''bundle.hot-update.js'']
          = Inl (TypeError ''Cannot read property 2 of null'')"
    by code_simp
  then show ?thesis by (simp add: getUpdatedEmittedFiles_def)
qed

subsection \<open>The message handler in watch mode\<close>

text \<open>
  Claim C4. After a start of the child in watch mode, the first message that carries
  \<^verbatim>\<open>emittedFiles\<close> (whatever text messages came before it) raises no event and runs no
  reconciliation: the handler only stores the hash of the message as the expected hash
  of the platform and clears \<^verbatim>\<open>isFirstWebpackWatchCompilation\<close>, so that later messages
  take the other branch.
\<close>

theorem first_structured_message_seeds:
  assumes "compileWithWatch None pid platformData prepareData st0 = (session0, st)"
    and "map_of (webpackProcesses st0) (platformNameLowerCase platformData) = None"
    and "\<forall>m\<in>set pre. isTextMessage m"
  shows "\<exists>session'.
           onMessages path_join platformData prepareData pid
               (pre @ [EmitMessage message_emittedFiles message_chunkFiles message_hash]) (session0, st) =
             Inr ([], session',
                  st\<lparr>expectedHashes :=
                       (expectedHashes st)(platformNameLowerCase platformData \<mapsto> message_hash)\<rparr>)
           \<and> \<not> isFirstWebpackWatchCompilation session'"
proof -
  from assms(1,2) have first: "isFirstWebpackWatchCompilation session0"
    by (auto simp: compileWithWatch_def compileWithWatch_enter_def compileWithWatch_resume_def
          startWebpackProcess_def)
  from onMessages_text [OF assms(3), of path_join platformData prepareData pid session0 st]
  obtain session1 where
    pre: "onMessages path_join platformData prepareData pid pre (session0, st) = Inr ([], session1, st)"
    and "isFirstWebpackWatchCompilation session1 = isFirstWebpackWatchCompilation session0"
    by blast
  with first have "isFirstWebpackWatchCompilation session1" by simp
  from onMessage_first [OF this]
  show ?thesis
    by (simp add: onMessages_append pre)
qed

theorem first_structured_message_seeds_witness:
  "compileWithWatch None 7 \<lparr>platformNameLowerCase = ''ios'', appDestinationDirectoryPath = ''/out''\<rparr>
       \<lparr>hmr = True, watch = False\<rparr>
       \<lparr>webpackProcesses = [], expectedHashes = Map.empty, spawned = [], cleanupCalls = [],
        signals = []\<rparr> =
     (\<lparr>promise = Pending, isFirstWebpackWatchCompilation = True, childProcess = Some 7\<rparr>,
      \<lparr>webpackProcesses = [(''ios'', 7)], expectedHashes = Map.empty,
       spawned = [(7, ''ios'', True)], cleanupCalls = [AddKillProcess 7], signals = []\<rparr>)
   \<and> (\<exists>session'.
         onMessages (\<lambda>a b c. a @ ''/'' @ b @ ''/'' @ c)
             \<lparr>platformNameLowerCase = ''ios'', appDestinationDirectoryPath = ''/out''\<rparr>
             \<lparr>hmr = True, watch = False\<rparr> 7
             ([TextMessage ''Webpack compilation complete.''] @ [EmitMessage [''bundle.js''] [] ''h0''])
             (\<lparr>promise = Pending, isFirstWebpackWatchCompilation = True, childProcess = Some 7\<rparr>,
              \<lparr>webpackProcesses = [(''ios'', 7)], expectedHashes = Map.empty,
               spawned = [(7, ''ios'', True)], cleanupCalls = [AddKillProcess 7], signals = []\<rparr>) =
           Inr ([], session',
                \<lparr>webpackProcesses = [(''ios'', 7)], expectedHashes = [''ios'' \<mapsto> ''h0''],
                 spawned = [(7, ''ios'', True)], cleanupCalls = [AddKillProcess 7], signals = []\<rparr>)
         \<and> \<not> isFirstWebpackWatchCompilation session')"
proof -
  let ?pd = "\<lparr>platformNameLowerCase = ''ios'', appDestinationDirectoryPath = ''/out''\<rparr>"
  let ?st0 = "\<lparr>webpackProcesses = [], expectedHashes = Map.empty, spawned = [], cleanupCalls = [],
        signals = []\<rparr>"
  have h1: "compileWithWatch None 7 ?pd \<lparr>hmr = True, watch = False\<rparr> ?st0 =
     (\<lparr>promise = Pending, isFirstWebpackWatchCompilation = True, childProcess = Some 7\<rparr>,
      \<lparr>webpackProcesses = [(''ios'', 7)], expectedHashes = Map.empty,
       spawned = [(7, ''ios'', True)], cleanupCalls = [AddKillProcess 7], signals = []\<rparr>)"
    by (simp add: compileWithWatch_def compileWithWatch_enter_def compileWithWatch_resume_def
          startWebpackProcess_def)
  have h2: "map_of (webpackProcesses ?st0) (platformNameLowerCase ?pd) = None" by simp
  have h3: "\<forall>m\<in>set [TextMessage ''Webpack compilation complete.'']. isTextMessage m" by simp
  from first_structured_message_seeds [OF h1 h2 h3, of "\<lambda>a b c. a @ ''/'' @ b @ ''/'' @ c" "[''bundle.js'']" "[]" "''h0''"]
  show ?thesis using h1 by simp
qed

text \<open>
  Claim C5, amended. For a message with \<^verbatim>\<open>emittedFiles\<close> that is not the first one, and
  whose reconciliation returns \<open>result\<close>: the emitted and the fallback files are each
  joined with the output directory of the platform and \<^verbatim>\<open>app\<close>; the candidate file list
  is the list of joined emitted files only, and the joined fallback files are carried in
  \<^verbatim>\<open>hmrData\<close> without being candidates; \<^verbatim>\<open>hasOnlyHotUpdateFiles\<close> holds iff every joined
  emitted file contains \<^verbatim>\<open>hot-update\<close>; one event with the files, this flag, the hash
  and the joined fallback files, and the platform is raised iff the list of joined
  emitted files is not empty, and no event when it is empty, whatever the fallback
  files.
\<close>

theorem later_message_raises_event:
  assumes "\<not> isFirstWebpackWatchCompilation session"
    and "(if hmr prepareData
          then getUpdatedEmittedFiles message_emittedFiles message_chunkFiles message_hash
                 (platformNameLowerCase platformData) st
          else Inr (\<lparr>fallbackFiles = [], hash = '''', emittedFiles = message_emittedFiles\<rparr>, st)) =
         Inr (result, st')"
    and "candidates =
           map (path_join (appDestinationDirectoryPath platformData) ''app'') (emittedFiles result)"
  shows "onMessage path_join platformData prepareData child
             (EmitMessage message_emittedFiles message_chunkFiles message_hash) (session, st) =
           Inr (if candidates = [] then []
                else [\<lparr>files = candidates,
                       hasOnlyHotUpdateFiles = (\<forall>f\<in>set candidates. sublist ''hot-update'' f),
                       hmrData =
                         \<lparr>fallbackFiles =
                            map (path_join (appDestinationDirectoryPath platformData) ''app'')
                              (fallbackFiles result),
                          hash = hash result\<rparr>,
                       platform = platformNameLowerCase platformData\<rparr>],
                session, st')"
  using assms
  by (simp add: onMessage_def Let_def list_all_iff indexOfFound_sublist del: set_map)

lemma getUpdatedEmittedFiles_example:
  "getUpdatedEmittedFiles [''bundle.js'', ''bundle.abc.hot-update.js''] [''bundle.js''] ''def'' ''ios''
     \<lparr>webpackProcesses = [(''ios'', 7)], expectedHashes = [''ios'' \<mapsto> ''abc''],
      spawned = [(7, ''ios'', True)], cleanupCalls = [AddKillProcess 7], signals = []\<rparr> =
   Inr (\<lparr>fallbackFiles = [''bundle.js''], hash = ''abc'',
         emittedFiles = [''bundle.abc.hot-update.js'']\<rparr>,
        \<lparr>webpackProcesses = [(''ios'', 7)], expectedHashes = [''ios'' \<mapsto> ''def''],
         spawned = [(7, ''ios'', True)], cleanupCalls = [AddKillProcess 7], signals = []\<rparr>)"
proof -
  have "getCurrentHotUpdateHash [''bundle.js'', ''bundle.abc.hot-update.js''] = Inr ''abc''"
    by code_simp
  then show ?thesis by (simp add: getUpdatedEmittedFiles_def difference_def)
qed

theorem later_message_raises_event_witness:
  "\<not> isFirstWebpackWatchCompilation
        \<lparr>promise = Resolved (Some 7), isFirstWebpackWatchCompilation = False, childProcess = Some 7\<rparr>
   \<and> onMessage (\<lambda>a b c. a @ ''/'' @ b @ ''/'' @ c)
         \<lparr>platformNameLowerCase = ''ios'', appDestinationDirectoryPath = ''/out''\<rparr>
         \<lparr>hmr = True, watch = True\<rparr> 7
         (EmitMessage [''bundle.js'', ''bundle.abc.hot-update.js''] [''bundle.js''] ''def'')
         (\<lparr>promise = Resolved (Some 7), isFirstWebpackWatchCompilation = False, childProcess = Some 7\<rparr>,
          \<lparr>webpackProcesses = [(''ios'', 7)], expectedHashes = [''ios'' \<mapsto> ''abc''],
           spawned = [(7, ''ios'', True)], cleanupCalls = [AddKillProcess 7], signals = []\<rparr>) =
       Inr ([\<lparr>files = [''/out/app/bundle.abc.hot-update.js''],
              hasOnlyHotUpdateFiles = True,
              hmrData = \<lparr>fallbackFiles = [''/out/app/bundle.js''], hash = ''abc''\<rparr>,
              platform = ''ios''\<rparr>],
            \<lparr>promise = Resolved (Some 7), isFirstWebpackWatchCompilation = False, childProcess = Some 7\<rparr>,
            \<lparr>webpackProcesses = [(''ios'', 7)], expectedHashes = [''ios'' \<mapsto> ''def''],
             spawned = [(7, ''ios'', True)], cleanupCalls = [AddKillProcess 7], signals = []\<rparr>)"
proof -
  let ?session = "\<lparr>promise = Resolved (Some 7), isFirstWebpackWatchCompilation = False, childProcess = Some 7\<rparr>"
  let ?pd = "\<lparr>platformNameLowerCase = ''ios'', appDestinationDirectoryPath = ''/out''\<rparr>"
  let ?prep = "\<lparr>hmr = True, watch = True\<rparr>"
  let ?st = "\<lparr>webpackProcesses = [(''ios'', 7)], expectedHashes = [''ios'' \<mapsto> ''abc''],
           spawned = [(7, ''ios'', True)], cleanupCalls = [AddKillProcess 7], signals = []\<rparr>"
  have h1: "\<not> isFirstWebpackWatchCompilation ?session" by simp
  have h2: "(if hmr ?prep
          then getUpdatedEmittedFiles [''bundle.js'', ''bundle.abc.hot-update.js''] [''bundle.js''] ''def''
                 (platformNameLowerCase ?pd) ?st
          else Inr (\<lparr>fallbackFiles = [], hash = '''',
                     emittedFiles = [''bundle.js'', ''bundle.abc.hot-update.js'']\<rparr>, ?st)) =
         Inr (\<lparr>fallbackFiles = [''bundle.js''], hash = ''abc'',
         emittedFiles = [''bundle.abc.hot-update.js'']\<rparr>,
        \<lparr>webpackProcesses = [(''ios'', 7)], expectedHashes = [''ios'' \<mapsto> ''def''],
         spawned = [(7, ''ios'', True)], cleanupCalls = [AddKillProcess 7], signals = []\<rparr>)"
    by (simp add: getUpdatedEmittedFiles_example)
  have h3: "[''/out/app/bundle.abc.hot-update.js''] =
           map ((\<lambda>a b c. a @ ''/'' @ b @ ''/'' @ c) (appDestinationDirectoryPath ?pd) ''app'')
             (emittedFiles \<lparr>fallbackFiles = [''bundle.js''], hash = ''abc'',
                emittedFiles = [''bundle.abc.hot-update.js'']\<rparr>)"
    by simp
  have h4: "sublist ''hot-update'' ''/out/app/bundle.abc.hot-update.js''"
    by (simp add: indexOfFound_sublist [symmetric])
  from later_message_raises_event
         [where session = ?session and prepareData = ?prep and platformData = ?pd
            and path_join = "\<lambda>a b c. a @ ''/'' @ b @ ''/'' @ c" and child = 7 and st = ?st
            and message_emittedFiles = "[''bundle.js'', ''bundle.abc.hot-update.js'']"
            and message_chunkFiles = "[''bundle.js'']" and message_hash = "''def''",
          OF h1 h2 h3] h4
  show ?thesis by simp
qed

lemma getUpdatedEmittedFiles_only_chunk:
  "getUpdatedEmittedFiles [''bundle.js''] [''bundle.js''] '''' ''ios''
     \<lparr>webpackProcesses = [(''ios'', 7)], expectedHashes = [''ios'' \<mapsto> ''abc''],
      spawned = [(7, ''ios'', True)], cleanupCalls = [AddKillProcess 7], signals = []\<rparr> =
   Inr (\<lparr>fallbackFiles = [''bundle.js''], hash = '''', emittedFiles = []\<rparr>,
        \<lparr>webpackProcesses = [(''ios'', 7)], expectedHashes = [''ios'' \<mapsto> ''''],
         spawned = [(7, ''ios'', True)], cleanupCalls = [AddKillProcess 7], signals = []\<rparr>)"
proof -
  have "getCurrentHotUpdateHash [''bundle.js''] = Inr ''''"
    by code_simp
  then show ?thesis by (simp add: getUpdatedEmittedFiles_def difference_def)
qed

text \<open>
  Claim C5 as stated fails, with the candidate files built from the emitted and the
  fallback files. On an update with the hot-update file \<^verbatim>\<open>bundle.abc.hot-update.js\<close> and
  the chunk file \<^verbatim>\<open>bundle.js\<close>, the event has \<^verbatim>\<open>hasOnlyHotUpdateFiles: true\<close> although the
  candidate \<^verbatim>\<open>/out/app/bundle.js\<close> does not contain \<^verbatim>\<open>hot-update\<close>. On a message whose only
  emitted file is its chunk file, no event is raised although the list of candidates is
  not empty.
\<close>

theorem later_message_fallback_counterexample:
  "onMessage (\<lambda>a b c. a @ ''/'' @ b @ ''/'' @ c)
       \<lparr>platformNameLowerCase = ''ios'', appDestinationDirectoryPath = ''/out''\<rparr>
       \<lparr>hmr = True, watch = True\<rparr> 7
       (EmitMessage [''bundle.js'', ''bundle.abc.hot-update.js''] [''bundle.js''] ''def'')
       (\<lparr>promise = Resolved (Some 7), isFirstWebpackWatchCompilation = False, childProcess = Some 7\<rparr>,
        \<lparr>webpackProcesses = [(''ios'', 7)], expectedHashes = [''ios'' \<mapsto> ''abc''],
         spawned = [(7, ''ios'', True)], cleanupCalls = [AddKillProcess 7], signals = []\<rparr>) =
     Inr ([\<lparr>files = [''/out/app/bundle.abc.hot-update.js''],
            hasOnlyHotUpdateFiles = True,
            hmrData = \<lparr>fallbackFiles = [''/out/app/bundle.js''], hash = ''abc''\<rparr>,
            platform = ''ios''\<rparr>],
          \<lparr>promise = Resolved (Some 7), isFirstWebpackWatchCompilation = False, childProcess = Some 7\<rparr>,
          \<lparr>webpackProcesses = [(''ios'', 7)], expectedHashes = [''ios'' \<mapsto> ''def''],
           spawned = [(7, ''ios'', True)], cleanupCalls = [AddKillProcess 7], signals = []\<rparr>)
   \<and> specCandidateFiles (\<lambda>a b c. a @ ''/'' @ b @ ''/'' @ c)
         \<lparr>platformNameLowerCase = ''ios'', appDestinationDirectoryPath = ''/out''\<rparr>
         \<lparr>fallbackFiles = [''bundle.js''], hash = ''abc'',
          emittedFiles = [''bundle.abc.hot-update.js'']\<rparr> =
       [''/out/app/bundle.abc.hot-update.js'', ''/out/app/bundle.js'']
   \<and> \<not> sublist ''hot-update'' ''/out/app/bundle.js''
   \<and> onMessage (\<lambda>a b c. a @ ''/'' @ b @ ''/'' @ c)
         \<lparr>platformNameLowerCase = ''ios'', appDestinationDirectoryPath = ''/out''\<rparr>
         \<lparr>hmr = True, watch = True\<rparr> 7
         (EmitMessage [''bundle.js''] [''bundle.js''] '''')
         (\<lparr>promise = Resolved (Some 7), isFirstWebpackWatchCompilation = False, childProcess = Some 7\<rparr>,
          \<lparr>webpackProcesses = [(''ios'', 7)], expectedHashes = [''ios'' \<mapsto> ''abc''],
           spawned = [(7, ''ios'', True)], cleanupCalls = [AddKillProcess 7], signals = []\<rparr>) =
       Inr ([],
            \<lparr>promise = Resolved (Some 7), isFirstWebpackWatchCompilation = False, childProcess = Some 7\<rparr>,
            \<lparr>webpackProcesses = [(''ios'', 7)], expectedHashes = [''ios'' \<mapsto> ''''],
             spawned = [(7, ''ios'', True)], cleanupCalls = [AddKillProcess 7], signals = []\<rparr>)
   \<and> specCandidateFiles (\<lambda>a b c. a @ ''/'' @ b @ ''/'' @ c)
         \<lparr>platformNameLowerCase = ''ios'', appDestinationDirectoryPath = ''/out''\<rparr>
         \<lparr>fallbackFiles = [''bundle.js''], hash = '''', emittedFiles = []\<rparr> =
       [''/out/app/bundle.js'']"
  by (simp add: onMessage_def Let_def getUpdatedEmittedFiles_example
        getUpdatedEmittedFiles_only_chunk specCandidateFiles_def
        indexOfFound_sublist [symmetric])

text \<open>
  Claim C10. With \<^verbatim>\<open>hmr\<close> disabled, a message with \<^verbatim>\<open>emittedFiles\<close> that is not the first
  one is not reconciled: the state, and with it the expected hash of the platform, is
  unchanged; the files of the event are all the emitted files of the message, joined
  with the output directory; its hash is empty and it has no fallback files. (The event
  is raised when the message has emitted files at all.)
\<close>

theorem hmr_disabled_bypasses_reconciliation:
  assumes "\<not> isFirstWebpackWatchCompilation session"
    and "\<not> hmr prepareData"
  shows "\<exists>raised.
           onMessage path_join platformData prepareData child
               (EmitMessage message_emittedFiles message_chunkFiles message_hash) (session, st) =
             Inr (raised, session, st)
           \<and> (message_emittedFiles = [] \<longrightarrow> raised = [])
           \<and> (message_emittedFiles \<noteq> [] \<longrightarrow>
                (\<exists>data. raised = [data]
                  \<and> files data =
                      map (path_join (appDestinationDirectoryPath platformData) ''app'')
                        message_emittedFiles
                  \<and> hash (hmrData data) = ''''
                  \<and> fallbackFiles (hmrData data) = []
                  \<and> platform data = platformNameLowerCase platformData))"
  using assms by (simp add: onMessage_def Let_def)

theorem hmr_disabled_bypasses_reconciliation_witness:
  "\<not> isFirstWebpackWatchCompilation
        \<lparr>promise = Resolved (Some 7), isFirstWebpackWatchCompilation = False, childProcess = Some 7\<rparr>
   \<and> \<not> hmr \<lparr>hmr = False, watch = True\<rparr>
   \<and> (\<exists>raised.
         onMessage (\<lambda>a b c. a @ ''/'' @ b @ ''/'' @ c)
           \<lparr>platformNameLowerCase = ''ios'', appDestinationDirectoryPath = ''/out''\<rparr>
           \<lparr>hmr = False, watch = True\<rparr> 7
           (EmitMessage [''bundle.js'', ''bundle.abc.hot-update.js''] [''bundle.js''] ''def'')
           (\<lparr>promise = Resolved (Some 7), isFirstWebpackWatchCompilation = False, childProcess = Some 7\<rparr>,
            \<lparr>webpackProcesses = [(''ios'', 7)], expectedHashes = [''ios'' \<mapsto> ''abc''],
             spawned = [(7, ''ios'', True)], cleanupCalls = [AddKillProcess 7], signals = []\<rparr>) =
         Inr (raised,
              \<lparr>promise = Resolved (Some 7), isFirstWebpackWatchCompilation = False, childProcess = Some 7\<rparr>,
              \<lparr>webpackProcesses = [(''ios'', 7)], expectedHashes = [''ios'' \<mapsto> ''abc''],
               spawned = [(7, ''ios'', True)], cleanupCalls = [AddKillProcess 7], signals = []\<rparr>)
         \<and> (\<exists>data. raised = [data]
               \<and> files data = [''/out/app/bundle.js'', ''/out/app/bundle.abc.hot-update.js'']
               \<and> hash (hmrData data) = ''''
               \<and> fallbackFiles (hmrData data) = []
               \<and> platform data = ''ios''))"
proof -
  let ?session = "\<lparr>promise = Resolved (Some 7), isFirstWebpackWatchCompilation = False, childProcess = Some 7\<rparr>"
  have h1: "\<not> isFirstWebpackWatchCompilation ?session" by simp
  have h2: "\<not> hmr \<lparr>hmr = False, watch = True\<rparr>" by simp
  from hmr_disabled_bypasses_reconciliation [OF h1 h2,
      of "\<lambda>a b c. a @ ''/'' @ b @ ''/'' @ c"
         "\<lparr>platformNameLowerCase = ''ios'', appDestinationDirectoryPath = ''/out''\<rparr>" 7
         "[''bundle.js'', ''bundle.abc.hot-update.js'']" "[''bundle.js'']" "''def''"
         "\<lparr>webpackProcesses = [(''ios'', 7)], expectedHashes = [''ios'' \<mapsto> ''abc''],
             spawned = [(7, ''ios'', True)], cleanupCalls = [AddKillProcess 7], signals = []\<rparr>"]
  show ?thesis by simp
qed

subsection \<open>One-shot compilation\<close>



text \<open>
  A start that throws before the child is spawned changes nothing; a start that throws
  after the registration rejects the promise and leaves the platform registered, with
  no handler attached to the child.
\<close>

lemma compileWithoutWatch_start_fails_before_spawn:
  "map_of (webpackProcesses st) (platformNameLowerCase platformData) = None \<Longrightarrow>
   compileWithoutWatch (Some (BeforeSpawn e)) pid platformData prepareData st =
     (\<lparr>oncePromise = Rejected e, onceChildProcess = None\<rparr>, st)"
  by (simp add: compileWithoutWatch_def startWebpackProcess_def)

lemma compileWithoutWatch_start_fails_after_registration:
  assumes "map_of (webpackProcesses st) (platformNameLowerCase platformData) = None"
    and "failure = Some (PidUnavailable e) \<or> failure = Some (AddKillProcessFails e)"
    and "compileWithoutWatch failure pid platformData prepareData st = (session, st')"
  shows "oncePromise session = Rejected e \<and> onceChildProcess session = None
         \<and> map_of (webpackProcesses st') (platformNameLowerCase platformData) = Some pid"
  using assms
  by (auto simp: compileWithoutWatch_def startWebpackProcess_def Let_def update_conv')

subsection \<open>Starting in watch mode\<close>

text \<open>
  A call of \<^verbatim>\<open>compileWithWatch\<close> on a registered platform resolves at once and spawns
  nothing; so does a second call made after the first one has registered its child.
\<close>

lemma compileWithWatch_registered:
  "map_of (webpackProcesses st) (platformNameLowerCase platformData) \<noteq> None \<Longrightarrow>
   compileWithWatch failure pid platformData prepareData st =
     (\<lparr>promise = Resolved None, isFirstWebpackWatchCompilation = True, childProcess = None\<rparr>, st)"
  by (simp add: compileWithWatch_def compileWithWatch_enter_def)

lemma compileWithWatch_twice_in_sequence:
  assumes "compileWithWatch None pid1 platformData prepareData st = (session1, st1)"
  shows "compileWithWatch failure pid2 platformData prepareData st1 =
     (\<lparr>promise = Resolved None, isFirstWebpackWatchCompilation = True, childProcess = None\<rparr>, st1)"
proof -
  from assms have "map_of (webpackProcesses st1) (platformNameLowerCase platformData) \<noteq> None"
    by (auto simp: compileWithWatch_def compileWithWatch_enter_def compileWithWatch_resume_def
          startWebpackProcess_def update_conv' split: if_splits)
  then show ?thesis by (rule compileWithWatch_registered)
qed

lemma compileWithWatch_concurrently_spawns_twice:
  assumes "map_of (webpackProcesses st) (platformNameLowerCase platformData) = None"
  shows "spawned (snd (snd (compileWithWatch_concurrently None pid1 None pid2 platformData prepareData st)))
         = spawned st @ [(pid1, platformNameLowerCase platformData, True),
                         (pid2, platformNameLowerCase platformData, True)]"
  using assms
  by (simp add: compileWithWatch_concurrently_def compileWithWatch_enter_def
        compileWithWatch_resume_def startWebpackProcess_def)

text \<open>
  Claim C2 (at most one child per platform, also for two concurrent calls) does not hold
  of the code. Two calls for \<^verbatim>\<open>ios\<close> on an empty registry, the second made before the first
  is resumed: both pass the guard, since a child is registered only after the first
  \<^verbatim>\<open>await\<close> of \<^verbatim>\<open>startWebpackProcess\<close>; two children are spawned in watch mode, both
  promises are pending, and the registry keeps the second child only.
\<close>

theorem compileWithWatch_concurrently_double_start:
  "compileWithWatch_concurrently None 101 None 102
      \<lparr>platformNameLowerCase = ''ios'', appDestinationDirectoryPath = ''/out''\<rparr>
      \<lparr>hmr = True, watch = True\<rparr>
      \<lparr>webpackProcesses = [], expectedHashes = Map.empty, spawned = [], cleanupCalls = [],
       signals = []\<rparr> =
    (\<lparr>promise = Pending, isFirstWebpackWatchCompilation = True, childProcess = Some 101\<rparr>,
     \<lparr>promise = Pending, isFirstWebpackWatchCompilation = True, childProcess = Some 102\<rparr>,
     \<lparr>webpackProcesses = [(''ios'', 102)], expectedHashes = Map.empty,
      spawned = [(101, ''ios'', True), (102, ''ios'', True)],
      cleanupCalls = [AddKillProcess 101, AddKillProcess 102], signals = []\<rparr>)"
  by (simp add: compileWithWatch_concurrently_def compileWithWatch_enter_def
        compileWithWatch_resume_def startWebpackProcess_def)

subsection \<open>Stopping\<close>

text \<open>
  Claim C7 (stopping a platform without a registered child does nothing) does not hold
  of the code: \<^verbatim>\<open>stopWebpackForPlatform\<close> reads \<^verbatim>\<open>webpackProcess.pid\<close> before its test
  of \<^verbatim>\<open>webpackProcess\<close>, so the call for \<^verbatim>\<open>ios\<close> on an empty registry is rejected with
  a TypeError.
\<close>

theorem stopWebpackCompiler_unregistered_throws:
  "stopWebpackCompiler (\<lambda>child. None) (Some ''ios'')
      \<lparr>webpackProcesses = [], expectedHashes = Map.empty, spawned = [], cleanupCalls = [],
       signals = []\<rparr> =
    (Some (TypeError ''Cannot read property pid of undefined''),
     \<lparr>webpackProcesses = [], expectedHashes = Map.empty, spawned = [], cleanupCalls = [],
      signals = []\<rparr>)"
  by (simp add: stopWebpackCompiler_def stopWebpackForPlatform_def)

text \<open>
  What does hold: a registered child is sent \<^verbatim>\<open>SIGINT\<close> and its platform is removed
  from the registry; when \<^verbatim>\<open>kill\<close> throws, the platform stays registered; without an
  argument, and no \<^verbatim>\<open>kill\<close> throwing, every registered platform is stopped.
\<close>

lemma stopWebpackForPlatform_registered:
  "map_of (webpackProcesses st) p = Some child \<Longrightarrow> kill child = None \<Longrightarrow>
   stopWebpackForPlatform kill p st =
     (None, st\<lparr>cleanupCalls := cleanupCalls st @ [RemoveKillProcess child],
               signals := signals st @ [(child, ''SIGINT'')],
               webpackProcesses := AList.delete p (webpackProcesses st)\<rparr>)"
  by (simp add: stopWebpackForPlatform_def)

lemma stopWebpackForPlatform_kill_throws:
  "map_of (webpackProcesses st) p = Some child \<Longrightarrow> kill child = Some e \<Longrightarrow>
   stopWebpackForPlatform kill p st =
     (Some e, st\<lparr>cleanupCalls := cleanupCalls st @ [RemoveKillProcess child]\<rparr>)"
  by (simp add: stopWebpackForPlatform_def)

lemma stopWebpackedPlatforms_all:
  "distinct ps \<Longrightarrow> set ps \<subseteq> fst ` set (webpackProcesses st) \<Longrightarrow> \<forall>child. kill child = None \<Longrightarrow>
   fst (stopWebpackedPlatforms kill ps st) = None
   \<and> fst ` set (webpackProcesses (snd (stopWebpackedPlatforms kill ps st)))
       = fst ` set (webpackProcesses st) - set ps"
proof (induction ps arbitrary: st)
  case Nil
  then show ?case by simp
next
  case (Cons p ps)
  then obtain child where c: "map_of (webpackProcesses st) p = Some child"
    by (metis domD dom_map_of_conv_image_fst list.set_intros(1) subsetD)
  let ?st' = "st\<lparr>cleanupCalls := cleanupCalls st @ [RemoveKillProcess child],
               signals := signals st @ [(child, ''SIGINT'')],
               webpackProcesses := AList.delete p (webpackProcesses st)\<rparr>"
  from Cons.prems c have step: "stopWebpackForPlatform kill p st = (None, ?st')"
    by (simp add: stopWebpackForPlatform_registered)
  have keys: "fst ` set (webpackProcesses ?st') = fst ` set (webpackProcesses st) - {p}"
    by (auto simp: AList.delete_eq image_iff)
  with Cons.prems have sub: "set ps \<subseteq> fst ` set (webpackProcesses ?st')" by auto
  from Cons.prems have "distinct ps" by simp
  from Cons.IH [OF this sub Cons.prems(3)]
  have "fst (stopWebpackedPlatforms kill ps ?st') = None
   \<and> fst ` set (webpackProcesses (snd (stopWebpackedPlatforms kill ps ?st')))
       = fst ` set (webpackProcesses ?st') - set ps" .
  with step keys show ?case by auto
qed

subsection \<open>The hash of the hot update\<close>

text \<open>
  On a file name \<open>name.h.hot-update.js\<close> whose hash \<open>h\<close> has no dot, the matcher returns
  \<open>name\<close> and \<open>h\<close>: a longer first group would have to end before one of the two later
  dots, and no \<^verbatim>\<open>(.+)\.hot-update\<close> follows either of them.
\<close>

lemma no_marker_after_head:
  "\<not> prefix ''.hot-update'' (drop (Suc i) ''.hot-update.js'')"
proof
  assume p: "prefix ''.hot-update'' (drop (Suc i) ''.hot-update.js'')"
  from prefix_length_le [OF p] have "i \<le> 2" by simp
  then consider "i = 0" | "i = 1" | "i = 2" by linarith
  then show False using p by cases (simp_all add: eval_nat_numeral)
qed

lemma concat_map_rev_upt:
  assumes "1 \<le> m" and "m \<le> N" and "\<And>n. m < n \<Longrightarrow> n \<le> N \<Longrightarrow> f n = []"
  shows "concat (map f (rev [1..<Suc N])) = f m @ concat (map f (rev [1..<m]))"
proof -
  have "[1..<Suc N] = [1..<m] @ [m..<Suc N]"
    using upt_add_eq_append [of 1 m "Suc N - m"] assms(1,2) by simp
  moreover have "[m..<Suc N] = m # [Suc m..<Suc N]"
    using assms(2) by (simp add: upt_conv_Cons del: upt_Suc)
  moreover have "concat (map f (rev [Suc m..<Suc N])) = []"
    using assms(3) by auto
  ultimately show ?thesis by simp
qed

lemma dotPlus_no_terminator:
  "\<forall>c\<in>set s. \<not> isLineTerminator c \<Longrightarrow>
   dotPlus s = map (\<lambda>n. (take n s, drop n s)) (rev [1..<Suc (length s)])"
  by (simp add: dotPlus_def takeWhile_eq_all_conv [THEN iffD2])

lemma dotPlus_elem:
  "(g, r) \<in> set (dotPlus s) \<Longrightarrow> \<exists>n. r = drop (Suc n) s"
proof -
  assume "(g, r) \<in> set (dotPlus s)"
  then obtain n where "1 \<le> n" "r = drop n s" by (auto simp: dotPlus_def)
  then show ?thesis by (cases n) auto
qed

lemma literal_Nil: "\<not> prefix l s \<Longrightarrow> literal l s = []"
  by (simp add: literal_def)

lemma no_second_match:
  assumes "CHR ''.'' \<notin> set h" and "prefix ''.'' (drop i (h @ ''.hot-update.js''))"
  shows "\<not> prefix ''.hot-update'' (drop (Suc n) (drop (Suc i) (h @ ''.hot-update.js'')))"
proof -
  have "length h \<le> i"
  proof (rule ccontr)
    assume "\<not> length h \<le> i"
    then have i: "i < length h" by simp
    then have "drop i (h @ ''.hot-update.js'') = (h ! i) # drop (Suc i) h @ ''.hot-update.js''"
      by (simp add: Cons_nth_drop_Suc)
    with assms(2) have "h ! i = CHR ''.''" by simp
    with i assms(1) show False by (metis nth_mem)
  qed
  then have "drop (Suc n) (drop (Suc i) (h @ ''.hot-update.js''))
               = drop (Suc (n + (Suc i - length h))) ''.hot-update.js''"
    by (simp add: Suc_diff_le add.commute)
  then show ?thesis using no_marker_after_head by simp
qed

lemma matchHere_hot_update:
  assumes "name \<noteq> []" and "h \<noteq> []" and "CHR ''.'' \<notin> set h"
    and "\<forall>c\<in>set name. \<not> isLineTerminator c" and "\<forall>c\<in>set h. \<not> isLineTerminator c"
  shows "\<exists>rest. matchHere (name @ ''.'' @ h @ ''.hot-update.js'') = (name, h) # rest"
proof -
  define t where "t = h @ ''.hot-update.js''"
  define s where "s = name @ ''.'' @ t"
  define inner :: "string \<Rightarrow> string \<Rightarrow> (string \<times> string) list" where "inner = (\<lambda>g1 r1'.
    concat (map (\<lambda>(g2, r2). map (\<lambda>_. (g1, g2)) (literal ''.hot-update'' r2)) (dotPlus r1')))"
  define outer :: "string \<times> string \<Rightarrow> (string \<times> string) list"
    where "outer = (\<lambda>(g1, r1). concat (map (inner g1) (literal ''.'' r1)))"
  have matchHere: "matchHere s = concat (map outer (dotPlus s))"
    by (simp add: matchHere_def outer_def inner_def)
  have nt_t: "\<forall>c\<in>set t. \<not> isLineTerminator c"
    using assms(5) by (auto simp: t_def isLineTerminator_def)
  have nt_s: "\<forall>c\<in>set s. \<not> isLineTerminator c"
    using assms(4) nt_t by (auto simp: s_def isLineTerminator_def)
  define f2 where "f2 = (\<lambda>n. map (\<lambda>_. (name, take n t)) (literal ''.hot-update'' (drop n t)))"
  have inner_t: "\<exists>rest. inner name t = (name, h) # rest"
  proof -
    have "inner name t = concat (map f2 (rev [1..<Suc (length t)]))"
      by (simp add: inner_def f2_def dotPlus_no_terminator [OF nt_t] comp_def)
    also have "\<dots> = f2 (length h) @ concat (map f2 (rev [1..<length h]))"
    proof (rule concat_map_rev_upt)
      show "1 \<le> length h" using assms(2) by (simp add: Suc_leI)
      show "length h \<le> length t" by (simp add: t_def)
      fix n assume n: "length h < n" "n \<le> length t"
      then obtain k where k: "n - length h = Suc k" by (cases "n - length h") auto
      from n have "drop n t = drop (n - length h) ''.hot-update.js''" by (simp add: t_def)
      with k no_marker_after_head [of k] have "\<not> prefix ''.hot-update'' (drop n t)" by simp
      then show "f2 n = []" by (simp add: f2_def literal_Nil)
    qed
    also have "f2 (length h) = [(name, h)]"
      by (simp add: f2_def t_def literal_def)
    finally show ?thesis by simp
  qed
  define f1 where "f1 = (\<lambda>n. outer (take n s, drop n s))"
  have "matchHere s = concat (map f1 (rev [1..<Suc (length s)]))"
    by (simp add: matchHere f1_def dotPlus_no_terminator [OF nt_s] comp_def)
  also have "\<dots> = f1 (length name) @ concat (map f1 (rev [1..<length name]))"
  proof (rule concat_map_rev_upt)
    show "1 \<le> length name" using assms(1) by (simp add: Suc_leI)
    show "length name \<le> length s" by (simp add: s_def)
    fix n assume n: "length name < n" "n \<le> length s"
    then obtain i where i: "n - length name = Suc i" by (cases "n - length name") auto
    with n have dr: "drop n s = drop i t" by (simp add: s_def)
    have f1n: "f1 n = concat (map (inner (take n s)) (literal ''.'' (drop i t)))"
      by (simp add: f1_def outer_def dr)
    show "f1 n = []"
    proof (cases "prefix ''.'' (drop i t)")
      case False
      then show ?thesis by (simp add: f1n literal_Nil)
    next
      case True
      have "inner (take n s) (drop (Suc i) t) = []"
      proof -
        have "\<And>g2 r2. (g2, r2) \<in> set (dotPlus (drop (Suc i) t)) \<Longrightarrow> literal ''.hot-update'' r2 = []"
        proof -
          fix g2 r2 assume "(g2, r2) \<in> set (dotPlus (drop (Suc i) t))"
          from dotPlus_elem [OF this] obtain k where "r2 = drop (Suc k) (drop (Suc i) t)" by blast
          with no_second_match [OF assms(3), of i k] True show "literal ''.hot-update'' r2 = []"
            by (simp add: literal_Nil t_def)
        qed
        then show ?thesis by (auto simp: inner_def)
      qed
      moreover from True have "literal ''.'' (drop i t) = [drop (Suc i) t]"
        by (simp add: literal_def)
      ultimately show ?thesis by (simp add: f1n)
    qed
  qed
  also have "f1 (length name) = inner name t"
    by (simp add: f1_def outer_def s_def literal_def)
  finally show ?thesis using inner_t by (auto simp: s_def t_def)
qed

lemma matcher_exec_first:
  "matchHere s = m # rest \<Longrightarrow> matcher_exec s = Some m"
proof -
  assume a: "matchHere s = m # rest"
  have "lineStarts s = 0 # filter (\<lambda>i. i = 0 \<or> isLineTerminator (s ! (i - 1))) [1..<Suc (length s)]"
    by (simp add: lineStarts_def upt_conv_Cons del: upt_Suc)
  then show ?thesis using a by (simp add: matcher_exec_def)
qed

lemma matcher_exec_hot_update:
  assumes "name \<noteq> []" and "h \<noteq> []" and "CHR ''.'' \<notin> set h"
    and "\<forall>c\<in>set name. \<not> isLineTerminator c" and "\<forall>c\<in>set h. \<not> isLineTerminator c"
  shows "matcher_exec (name @ ''.'' @ h @ ''.hot-update.js'') = Some (name, h)"
  using matchHere_hot_update [OF assms] matcher_exec_first by blast

lemma getCurrentHotUpdateHash_none:
  "\<forall>x\<in>set allEmittedFiles. \<not> endsWith x ''.hot-update.js'' \<Longrightarrow>
   getCurrentHotUpdateHash allEmittedFiles = Inr ''''"
  by (simp add: getCurrentHotUpdateHash_def filter_False)

lemma filter_first:
  "\<forall>x\<in>set pre. \<not> P x \<Longrightarrow> P f \<Longrightarrow> filter P (pre @ f # post) = f # filter P post"
  by (simp add: filter_False)

text \<open>
  Claim C8, amended. The current hash is taken from the first emitted file that ends with
  \<^verbatim>\<open>.hot-update.js\<close> (files with another extension are not scanned): when no emitted
  file ends with \<^verbatim>\<open>.hot-update.js\<close>, the current hash is the empty string; when the
  first such file is \<open>name.h.hot-update.js\<close>, with a non-empty name and a non-empty hash
  \<open>h\<close> without a dot (and no line terminator in either), the current hash is \<open>h\<close>.
\<close>

theorem getCurrentHotUpdateHash_first_script:
  "((\<forall>x\<in>set allEmittedFiles. \<not> endsWith x ''.hot-update.js'') \<longrightarrow>
      getCurrentHotUpdateHash allEmittedFiles = Inr '''')
   \<and> (\<forall>pre name h post.
        allEmittedFiles = pre @ (name @ ''.'' @ h @ ''.hot-update.js'') # post
        \<and> (\<forall>x\<in>set pre. \<not> endsWith x ''.hot-update.js'')
        \<and> name \<noteq> [] \<and> h \<noteq> [] \<and> CHR ''.'' \<notin> set h
        \<and> (\<forall>c\<in>set (name @ h). \<not> isLineTerminator c)
        \<longrightarrow> getCurrentHotUpdateHash allEmittedFiles = Inr h)"
proof (intro conjI allI impI)
  assume "\<forall>x\<in>set allEmittedFiles. \<not> endsWith x ''.hot-update.js''"
  then show "getCurrentHotUpdateHash allEmittedFiles = Inr ''''"
    by (rule getCurrentHotUpdateHash_none)
next
  fix pre name h post
  let ?f = "name @ ''.'' @ h @ ''.hot-update.js''"
  assume a: "allEmittedFiles = pre @ ?f # post
        \<and> (\<forall>x\<in>set pre. \<not> endsWith x ''.hot-update.js'')
        \<and> name \<noteq> [] \<and> h \<noteq> [] \<and> CHR ''.'' \<notin> set h
        \<and> (\<forall>c\<in>set (name @ h). \<not> isLineTerminator c)"
  have "endsWith ?f ''.hot-update.js''"
    unfolding endsWith_def suffix_def by (rule exI [of _ "name @ ''.'' @ h"]) simp
  with a have "filter (\<lambda>x. endsWith x ''.hot-update.js'') allEmittedFiles
                = ?f # filter (\<lambda>x. endsWith x ''.hot-update.js'') post"
    by (simp add: filter_first)
  moreover from a have "matcher_exec ?f = Some (name, h)"
    by (intro matcher_exec_hot_update) auto
  ultimately show "getCurrentHotUpdateHash allEmittedFiles = Inr h"
    using a by (simp add: getCurrentHotUpdateHash_def)
qed

theorem getCurrentHotUpdateHash_first_script_witness:
  "getCurrentHotUpdateHash [''main.js'', ''starter.css''] = Inr ''''
   \<and> getCurrentHotUpdateHash
        ([''main.js''] @ (''bundle'' @ ''.'' @ ''abc'' @ ''.hot-update.js'') # [''vendor.abc.hot-update.js''])
      = Inr ''abc''"
proof -
  have 1: "\<forall>x\<in>set [''main.js'', ''starter.css'']. \<not> endsWith x ''.hot-update.js''"
    by (simp add: endsWith_def suffix_def)
  have 2: "[''main.js''] @ (''bundle'' @ ''.'' @ ''abc'' @ ''.hot-update.js'') # [''vendor.abc.hot-update.js'']
            = [''main.js''] @ (''bundle'' @ ''.'' @ ''abc'' @ ''.hot-update.js'') # [''vendor.abc.hot-update.js'']
        \<and> (\<forall>x\<in>set [''main.js'']. \<not> endsWith x ''.hot-update.js'')
        \<and> ''bundle'' \<noteq> [] \<and> ''abc'' \<noteq> [] \<and> CHR ''.'' \<notin> set ''abc''
        \<and> (\<forall>c\<in>set (''bundle'' @ ''abc''). \<not> isLineTerminator c)"
    by (simp add: endsWith_def suffix_def isLineTerminator_def)
  from getCurrentHotUpdateHash_first_script [of "[''main.js'', ''starter.css'']"] 1
  have "getCurrentHotUpdateHash [''main.js'', ''starter.css''] = Inr ''''" by blast
  moreover
  from getCurrentHotUpdateHash_first_script
         [of "[''main.js''] @ (''bundle'' @ ''.'' @ ''abc'' @ ''.hot-update.js'') # [''vendor.abc.hot-update.js'']"] 2
  have "getCurrentHotUpdateHash
        ([''main.js''] @ (''bundle'' @ ''.'' @ ''abc'' @ ''.hot-update.js'') # [''vendor.abc.hot-update.js''])
      = Inr ''abc''" by blast
  ultimately show ?thesis by blast
qed

text \<open>
  Claim C8 as stated fails: \<^verbatim>\<open>main.abc.hot-update.json\<close> has the shape
  \<^verbatim>\<open><name>.<hash>.hot-update.<ext>\<close> with the hash \<open>abc\<close>, yet the current hash of this
  list is the empty string, which is the hash segment of no file.
\<close>

theorem getCurrentHotUpdateHash_json_counterexample:
  "specHotUpdatePattern ''main.abc.hot-update.json'' ''abc''
   \<and> getCurrentHotUpdateHash [''main.abc.hot-update.json''] = Inr ''''
   \<and> \<not> specHotUpdatePattern ''main.abc.hot-update.json'' ''''"
proof -
  have "''main.abc.hot-update.json'' = ''main'' @ ''.'' @ ''abc'' @ ''.hot-update.'' @ ''json''" by simp
  then have "specHotUpdatePattern ''main.abc.hot-update.json'' ''abc''"
    unfolding specHotUpdatePattern_def by blast
  moreover have "getCurrentHotUpdateHash [''main.abc.hot-update.json''] = Inr ''''"
    by code_simp
  moreover have "\<not> specHotUpdatePattern ''main.abc.hot-update.json'' ''''"
    by (simp add: specHotUpdatePattern_def)
  ultimately show ?thesis by blast
qed

text \<open>
  A file that ends with \<^verbatim>\<open>.hot-update.js\<close> and has no hash segment makes the match fail,
  and \<^verbatim>\<open>matches[2]\<close> throws.
\<close>

lemma getCurrentHotUpdateHash_throws:
  "getCurrentHotUpdateHash [''bundle.hot-update.js''] = Inl (TypeError ''Cannot read property 2 of null'')"
  by code_simp

subsection \<open>The latch of native changes\<close>

lemma orchestrate_append:
  "orchestrate ignored (xs @ ys) orch = orchestrate ignored ys (orchestrate ignored xs orch)"
  by (induction ignored xs orch rule: orchestrate.induct) simp_all

lemma orchestrate_latches:
  "\<forall>e\<in>set evs. \<not> isCompilationComplete e \<Longrightarrow>
   orchestrate ignored evs orch =
     orch\<lparr>hasPendingNativeChange :=
            hasPendingNativeChange orch \<or> (\<exists>e\<in>set evs. isNativeChange ignored e)\<rparr>"
proof (induction ignored evs orch rule: orchestrate.induct)
  case (1 ignored orch)
  then show ?case by simp
next
  case (2 ignored changed evs orch)
  then show ?case by (auto simp: nativePrepareReturned_def)
next
  case (3 ignored path evs orch)
  then show ?case by (auto simp: nativeFileEvent_def)
next
  case (4 ignored fragment evs orch)
  then show ?case by simp
qed

lemma isNativeChange_iff:
  "(\<exists>e\<in>set evs. isNativeChange ignored e) \<longleftrightarrow>
     NativePrepareReturned True \<in> set evs \<or> (\<exists>path. NativeFileEvent path \<in> set evs \<and> \<not> ignored path)"
proof
  assume "\<exists>e\<in>set evs. isNativeChange ignored e"
  then obtain e where "e \<in> set evs" "isNativeChange ignored e" by blast
  from this(2) have "e = NativePrepareReturned True \<or> (\<exists>path. e = NativeFileEvent path \<and> \<not> ignored path)"
    by (cases e) auto
  with \<open>e \<in> set evs\<close>
  show "NativePrepareReturned True \<in> set evs \<or> (\<exists>path. NativeFileEvent path \<in> set evs \<and> \<not> ignored path)"
    by auto
next
  assume "NativePrepareReturned True \<in> set evs \<or> (\<exists>path. NativeFileEvent path \<in> set evs \<and> \<not> ignored path)"
  then show "\<exists>e\<in>set evs. isNativeChange ignored e"
    by (metis isNativeChange.simps(1,2))
qed

lemma orchestrate_cleared:
  "history = [] \<or> (\<exists>h f. history = h @ [CompilationComplete f]) \<Longrightarrow>
   \<not> hasPendingNativeChange (orchestrate ignored history initialOrchestrator)"
  by (auto simp: orchestrate_append initialOrchestrator_def compilationComplete_def)

text \<open>
  Claim C3. In watch mode, take a cycle: the events \<open>evs\<close> that arrive after the start or
  after the previous readiness event, none of them a compilation-complete event, followed
  by a compilation-complete event. The readiness event raised for it has
  \<^verbatim>\<open>hasNativeChanges\<close> true iff the native-prepare step returned true in the cycle or a
  native file event that is not ignored was observed in it, whether before or after the
  native-prepare step returned. In particular a native file event in the cycle, with a
  native-prepare step that returns false, gives \<^verbatim>\<open>hasNativeChanges: true\<close>.
\<close>

theorem hasNativeChanges_latched:
  assumes "history = [] \<or> (\<exists>h f. history = h @ [CompilationComplete f])"
    and "\<forall>e\<in>set evs. \<not> isCompilationComplete e"
  shows "readinessEvents
           (orchestrate ignored (history @ evs @ [CompilationComplete fragment]) initialOrchestrator) =
         readinessEvents (orchestrate ignored history initialOrchestrator) @
           [\<lparr>files = files fragment,
             hasOnlyHotUpdateFiles = hasOnlyHotUpdateFiles fragment,
             hmrData = hmrData fragment,
             platform = platform fragment,
             hasNativeChanges =
               (NativePrepareReturned True \<in> set evs
                \<or> (\<exists>path. NativeFileEvent path \<in> set evs \<and> \<not> ignored path))\<rparr>]"
proof -
  let ?o = "orchestrate ignored history initialOrchestrator"
  from orchestrate_cleared [OF assms(1)] have "\<not> hasPendingNativeChange ?o" .
  then show ?thesis
    by (simp add: orchestrate_append orchestrate_latches [OF assms(2)] compilationComplete_def
          isNativeChange_iff)
qed

theorem hasNativeChanges_latched_witness:
  "readinessEvents
        (orchestrate (\<lambda>path. False)
           ([] @ [NativeFileEvent ''App_Resources/some/file'', NativePrepareReturned False] @
            [CompilationComplete
               \<lparr>files = [''/out/app/main.js''], hasOnlyHotUpdateFiles = False,
                hmrData = \<lparr>fallbackFiles = [], hash = ''''\<rparr>, platform = ''ios''\<rparr>])
           initialOrchestrator) =
      [\<lparr>files = [''/out/app/main.js''], hasOnlyHotUpdateFiles = False,
        hmrData = \<lparr>fallbackFiles = [], hash = ''''\<rparr>, platform = ''ios'',
        hasNativeChanges = True\<rparr>]"
proof -
  have h2: "\<forall>e\<in>set [NativeFileEvent ''App_Resources/some/file'', NativePrepareReturned False].
         \<not> isCompilationComplete e" by simp
  have h0: "readinessEvents (orchestrate (\<lambda>path. False) [] initialOrchestrator) = []"
    by (simp add: initialOrchestrator_def)
  from hasNativeChanges_latched [of "[]", OF _ h2, of "\<lambda>path. False"
      "\<lparr>files = [''/out/app/main.js''], hasOnlyHotUpdateFiles = False,
                hmrData = \<lparr>fallbackFiles = [], hash = ''''\<rparr>, platform = ''ios''\<rparr>"]
  show ?thesis using h0 by auto
qed

subsection \<open>The scenario\<close>

lemma getCurrentHotUpdateHash_main_js: "getCurrentHotUpdateHash [''main.js''] = Inr ''''"
  by code_simp

text \<open>
  Claim C9, amended. Platform \<^verbatim>\<open>ios\<close>; the native-prepare step returns false, one native
  file event that is not ignored follows, then the child sends its first message with
  emitted files and a second one with \<^verbatim>\<open>emittedFiles: ["main.js"], chunkFiles: [], hash: "abc"\<close>.
  Exactly one readiness event is raised: its files are the joined path of \<^verbatim>\<open>main.js\<close>,
  \<^verbatim>\<open>hasNativeChanges\<close> is true, \<^verbatim>\<open>hasOnlyHotUpdateFiles\<close> is false (the joined path not
  containing \<^verbatim>\<open>hot-update\<close>), the fallback files are empty, the platform is \<^verbatim>\<open>ios\<close>, and
  the hash of \<^verbatim>\<open>hmrData\<close> is the empty string: it is the current hash read from the
  names of the hot-update files, of which there is none, and not the hash of the message.
  This holds with \<^verbatim>\<open>hmr\<close> enabled and disabled.
\<close>

theorem scenario_single_readiness_event:
  assumes "platformNameLowerCase platformData = ''ios''"
    and "\<not> ignored path"
    and "\<not> sublist ''hot-update'' (path_join (appDestinationDirectoryPath platformData) ''app'' ''main.js'')"
    and "isFirstWebpackWatchCompilation session"
  shows "\<exists>session' st'.
           watchRun path_join ignored platformData prepareData child
             [NativePrepareDone False, NativeFileChanged path,
              ChildMessage (EmitMessage seedFiles seedChunks seedHash),
              ChildMessage (EmitMessage [''main.js''] [] ''abc'')]
             (session, st, initialOrchestrator) =
           Inr (session', st',
                \<lparr>hasPendingNativeChange = False,
                 readinessEvents =
                   [\<lparr>files = [path_join (appDestinationDirectoryPath platformData) ''app'' ''main.js''],
                     hasOnlyHotUpdateFiles = False,
                     hmrData = \<lparr>fallbackFiles = [], hash = ''''\<rparr>,
                     platform = ''ios'',
                     hasNativeChanges = True\<rparr>]\<rparr>)"
  using assms
  by (simp add: onMessage_def getUpdatedEmittedFiles_def getCurrentHotUpdateHash_main_js Let_def
        difference_def indexOfFound_sublist nativePrepareReturned_def nativeFileEvent_def
        compilationComplete_def initialOrchestrator_def)

theorem scenario_single_readiness_event_witness:
  "platformNameLowerCase \<lparr>platformNameLowerCase = ''ios'', appDestinationDirectoryPath = ''/out''\<rparr> = ''ios''
   \<and> \<not> (\<lambda>path. False) ''App_Resources/icon.png''
   \<and> \<not> sublist ''hot-update'' ''/out/app/main.js''
   \<and> (\<exists>session' st'.
         watchRun (\<lambda>a b c. a @ ''/'' @ b @ ''/'' @ c) (\<lambda>path. False)
           \<lparr>platformNameLowerCase = ''ios'', appDestinationDirectoryPath = ''/out''\<rparr>
           \<lparr>hmr = True, watch = True\<rparr> 7
           [NativePrepareDone False, NativeFileChanged ''App_Resources/icon.png'',
            ChildMessage (EmitMessage [''bundle.js''] [''bundle.js''] ''seed''),
            ChildMessage (EmitMessage [''main.js''] [] ''abc'')]
           (\<lparr>promise = Pending, isFirstWebpackWatchCompilation = True, childProcess = Some 7\<rparr>,
            \<lparr>webpackProcesses = [(''ios'', 7)], expectedHashes = Map.empty,
             spawned = [(7, ''ios'', True)], cleanupCalls = [AddKillProcess 7], signals = []\<rparr>,
            initialOrchestrator) =
         Inr (session', st',
              \<lparr>hasPendingNativeChange = False,
               readinessEvents =
                 [\<lparr>files = [''/out/app/main.js''],
                   hasOnlyHotUpdateFiles = False,
                   hmrData = \<lparr>fallbackFiles = [], hash = ''''\<rparr>,
                   platform = ''ios'',
                   hasNativeChanges = True\<rparr>]\<rparr>))"
proof -
  have h3: "\<not> sublist ''hot-update'' ''/out/app/main.js''"
    by (simp add: indexOfFound_sublist [symmetric])
  from scenario_single_readiness_event
         [of "\<lparr>platformNameLowerCase = ''ios'', appDestinationDirectoryPath = ''/out''\<rparr>"
             "\<lambda>path. False" "''App_Resources/icon.png''" "\<lambda>a b c. a @ ''/'' @ b @ ''/'' @ c"
             "\<lparr>promise = Pending, isFirstWebpackWatchCompilation = True, childProcess = Some 7\<rparr>"
             "\<lparr>hmr = True, watch = True\<rparr>" 7 "[''bundle.js'']" "[''bundle.js'']" "''seed''"]
  show ?thesis using h3 by simp
qed

text \<open>
  Claim C9 as stated fails: in the scenario, with \<^verbatim>\<open>hmr\<close> enabled and the output directory
  \<^verbatim>\<open>/out\<close>, the readiness events are not the single event with the hash \<open>abc\<close>.
\<close>

theorem scenario_hash_counterexample:
  "map_sum id (readinessEvents \<circ> snd \<circ> snd)
     (watchRun (\<lambda>a b c. a @ ''/'' @ b @ ''/'' @ c) (\<lambda>path. False)
        \<lparr>platformNameLowerCase = ''ios'', appDestinationDirectoryPath = ''/out''\<rparr>
        \<lparr>hmr = True, watch = True\<rparr> 7
        [NativePrepareDone False, NativeFileChanged ''App_Resources/icon.png'',
         ChildMessage (EmitMessage [''bundle.js''] [''bundle.js''] ''seed''),
         ChildMessage (EmitMessage [''main.js''] [] ''abc'')]
        (\<lparr>promise = Pending, isFirstWebpackWatchCompilation = True, childProcess = Some 7\<rparr>,
         \<lparr>webpackProcesses = [(''ios'', 7)], expectedHashes = Map.empty,
          spawned = [(7, ''ios'', True)], cleanupCalls = [AddKillProcess 7], signals = []\<rparr>,
         initialOrchestrator))
   \<noteq> Inr [\<lparr>files = [''/out/app/main.js''],
             hasOnlyHotUpdateFiles = False,
             hmrData = \<lparr>fallbackFiles = [], hash = ''abc''\<rparr>,
             platform = ''ios'',
             hasNativeChanges = True\<rparr>]"
  by (simp add: onMessage_def getUpdatedEmittedFiles_def getCurrentHotUpdateHash_main_js Let_def
        difference_def nativePrepareReturned_def nativeFileEvent_def
        compilationComplete_def initialOrchestrator_def)

end
